theory Spec2Isabelle
  imports Main
begin

unbundle bit_operations_syntax

section \<open>The byte converter of ctf\_converter.py\<close>

text \<open>
  The class \<open>Converter\<close> of \<open>src/ctf_converter.py\<close> holds no state: every method is a
  function of its arguments. Python integers are \<open>int\<close>. A Python string is modelled as
  a \<open>string\<close> whose characters are the code points 0 to 255, the text domain of the
  converter's data model; a code point above 255 is outside this model. An exception is
  a value \<open>Inl e\<close> of the result type \<open>error + 'a\<close>.
\<close>

subsection \<open>Errors\<close>

text \<open>
  \<open>ConversionError\<close> carries the message the source builds with an f-string. The other
  constructors are the built-in exceptions that the methods do not catch.
  \<open>CodePointAbove255\<close> is not an exception: it marks that \<open>chr\<close> returned a character
  that the 8-bit text model cannot hold.
\<close>

datatype error =
    ConversionError string
  | ValueError
  | TypeError
  | IndexError
  | CodePointAbove255

text \<open>
  An argument or a result that is one number in single-value mode and a list of numbers
  otherwise.
\<close>

datatype decimals = Single int | Many "int list"

subsection \<open>Python built-ins used by the source\<close>

definition digit_char :: "nat \<Rightarrow> char" where
  "digit_char n = char_of (48 + n)"

text \<open>\<open>str(n)\<close> for an integer: decimal digits, with a minus sign when negative.\<close>

fun str_nat :: "nat \<Rightarrow> string" where
  "str_nat n = (if n < 10 then [digit_char n] else str_nat (n div 10) @ [digit_char (n mod 10)])"

declare str_nat.simps [simp del]

definition str_int :: "int \<Rightarrow> string" where
  "str_int i = (if i < 0 then CHR ''-'' # str_nat (nat (- i)) else str_nat (nat i))"

definition hex_digit_char :: "nat \<Rightarrow> char" where
  "hex_digit_char n = (if n < 10 then char_of (48 + n) else char_of (87 + n))"

fun hex_digits :: "nat \<Rightarrow> string" where
  "hex_digits n = (if n < 16 then [hex_digit_char n] else hex_digits (n div 16) @ [hex_digit_char (n mod 16)])"

declare hex_digits.simps [simp del]

text \<open>\<open>hex(n)\<close>: \<open>0x\<close> and the lowercase digits, after a minus sign when negative.\<close>

definition py_hex :: "int \<Rightarrow> string" where
  "py_hex i = (if i < 0 then ''-0x'' @ hex_digits (nat (- i)) else ''0x'' @ hex_digits (nat i))"

text \<open>
  \<open>chr(i)\<close> raises ValueError outside \<open>range(0x110000)\<close>; the result is a string of one
  character.
\<close>

definition chr :: "int \<Rightarrow> error + string" where
  "chr i = (if i < 0 \<or> 1114112 \<le> i then Inl ValueError
            else if i \<le> 255 then Inr [char_of i]
            else Inl CodePointAbove255)"

text \<open>\<open>ord(s)\<close> raises TypeError unless the string has exactly one character.\<close>

definition ord :: "string \<Rightarrow> error + int" where
  "ord s = (case s of [c] \<Rightarrow> Inr (of_char c) | _ \<Rightarrow> Inl TypeError)"

text \<open>
  The characters that \<open>int(s, base)\<close> skips at both ends of \<open>s\<close>: tab, line feed, vertical
  tab, form feed, carriage return and space, and the two whitespace code points between
  128 and 255 (next line and no-break space), which the parser reads as a space.
\<close>

definition is_space :: "char \<Rightarrow> bool" where
  "is_space c \<longleftrightarrow> (of_char c :: nat) \<in> {9, 10, 11, 12, 13, 32, 133, 160}"

text \<open>The value of a character as a digit; 37 for a character that is no digit in any base.\<close>

definition digit_value :: "char \<Rightarrow> nat" where
  "digit_value c =
     (let n = of_char c :: nat in
      if 48 \<le> n \<and> n \<le> 57 then n - 48
      else if 97 \<le> n \<and> n \<le> 122 then n - 87
      else if 65 \<le> n \<and> n \<le> 90 then n - 55
      else 37)"

text \<open>
  The digit scan of \<open>int(s, 16)\<close>: digits with single underscores between them. The flag
  says that the previous character was an underscore; two underscores in a row and a
  trailing underscore are syntax errors. The scan returns the value and the unread rest.
\<close>

fun scan_hex :: "string \<Rightarrow> bool \<Rightarrow> int \<Rightarrow> (int \<times> string) option" where
  "scan_hex [] prev acc = (if prev then None else Some (acc, []))"
| "scan_hex (c # cs) prev acc =
     (if c = CHR ''_'' then (if prev then None else scan_hex cs True acc)
      else if digit_value c < 16 then scan_hex cs False (16 * acc + int (digit_value c))
      else if prev then None else Some (acc, c # cs))"

text \<open>An optional sign.\<close>

definition read_sign :: "string \<Rightarrow> int \<times> string" where
  "read_sign s =
     (case s of
        [] \<Rightarrow> (1, s)
      | c # r \<Rightarrow> if c = CHR ''+'' then (1, r) else if c = CHR ''-'' then (- 1, r) else (1, s))"

text \<open>An optional prefix \<open>0x\<close> or \<open>0X\<close>, and one underscore after it.\<close>

definition read_prefix :: "string \<Rightarrow> string" where
  "read_prefix s =
     (case s of
        c # x # r \<Rightarrow>
          if c = CHR ''0'' \<and> (x = CHR ''x'' \<or> x = CHR ''X'')
          then (case r of [] \<Rightarrow> r | u # r' \<Rightarrow> if u = CHR ''_'' then r' else r)
          else s
      | _ \<Rightarrow> s)"

text \<open>
  \<open>int(s, 16)\<close>, with \<open>None\<close> for ValueError: whitespace, sign, prefix, at least one
  digit, whitespace, and nothing else.
\<close>

definition int16 :: "string \<Rightarrow> int option" where
  "int16 s =
     (let (sign, s2) = read_sign (dropWhile is_space s);
          s3 = read_prefix s2
      in case s3 of
           [] \<Rightarrow> None
         | c # _ \<Rightarrow>
             if \<not> digit_value c < 16 then None
             else (case scan_hex s3 False 0 of
                     None \<Rightarrow> None
                   | Some (v, rest) \<Rightarrow>
                       if dropWhile is_space rest = [] then Some (sign * v) else None))"

text \<open>\<open>int(c)\<close> in base 10 for a string of one character, as \<open>xor_b\<close> calls it.\<close>

definition int10_char :: "char \<Rightarrow> int option" where
  "int10_char c = (if digit_value c < 10 then Some (int (digit_value c)) else None)"

text \<open>\<open>s.strip("\n")\<close>: the line feeds at both ends are removed.\<close>

definition strip_nl :: "string \<Rightarrow> string" where
  "strip_nl s = rev (dropWhile (\<lambda>c. c = CHR 0x0A) (rev (dropWhile (\<lambda>c. c = CHR 0x0A) s)))"

definition startswith :: "string \<Rightarrow> string \<Rightarrow> bool" where
  "startswith s p \<longleftrightarrow> take (length p) s = p"

text \<open>\<open>[s[i:i+2] for i in range(0, len(s), 2)]\<close>: the last slice has one character when
  the length is odd.\<close>

fun hex_list :: "string \<Rightarrow> string list" where
  "hex_list [] = []"
| "hex_list [a] = [[a]]"
| "hex_list (a # b # r) = [a, b] # hex_list r"

subsection \<open>Single-value conversions\<close>

fun d_to_b_loop :: "nat \<Rightarrow> int \<Rightarrow> int \<Rightarrow> string \<Rightarrow> string" where
  "d_to_b_loop 0 mult remaining binary_string = binary_string"
| "d_to_b_loop (Suc n) mult remaining binary_string =
     (if remaining - mult \<ge> 0
      then d_to_b_loop n (mult div 2) (remaining - mult) (binary_string @ ''1'')
      else d_to_b_loop n (mult div 2) remaining (binary_string @ ''0''))"

definition d_to_b :: "int \<Rightarrow> string" where
  "d_to_b decimal = d_to_b_loop 8 128 decimal []"

definition d_to_t :: "int \<Rightarrow> error + string" where
  "d_to_t decimal = chr decimal"

definition d_to_h :: "int \<Rightarrow> string" where
  "d_to_h decimal =
     (let hex_char = drop 2 (py_hex decimal)
      in if length hex_char = 1 then ''0'' @ hex_char else hex_char)"

fun b_to_d_loop :: "string \<Rightarrow> int \<Rightarrow> int \<Rightarrow> int" where
  "b_to_d_loop [] mult decimal = decimal"
| "b_to_d_loop (i # r) mult decimal =
     b_to_d_loop r (mult * 2) (if i = CHR ''1'' then decimal + mult else decimal)"

definition b_to_d :: "string \<Rightarrow> int" where
  "b_to_d binary_string = b_to_d_loop (rev binary_string) 1 0"

definition t_to_d :: "string \<Rightarrow> error + int" where
  "t_to_d text = ord text"

definition h_to_d :: "string \<Rightarrow> error + int" where
  "h_to_d hex_char = (case int16 hex_char of None \<Rightarrow> Inl ValueError | Some v \<Rightarrow> Inr v)"

text \<open>
  \<open>xor_b\<close> reads the first 8 characters of both strings: an index past the end raises
  IndexError, and \<open>int\<close> of a character that is no decimal digit raises ValueError.
\<close>

fun xor_b_loop :: "nat list \<Rightarrow> string \<Rightarrow> string \<Rightarrow> string \<Rightarrow> error + string" where
  "xor_b_loop [] binary_a binary_b binary_c = Inr binary_c"
| "xor_b_loop (i # r) binary_a binary_b binary_c =
     (if length binary_a \<le> i then Inl IndexError
      else (case int10_char (binary_a ! i) of
              None \<Rightarrow> Inl ValueError
            | Some a \<Rightarrow>
                if length binary_b \<le> i then Inl IndexError
                else (case int10_char (binary_b ! i) of
                        None \<Rightarrow> Inl ValueError
                      | Some b \<Rightarrow>
                          xor_b_loop r binary_a binary_b (binary_c @ str_int (a XOR b)))))"

definition xor_b :: "string \<Rightarrow> string \<Rightarrow> error + string" where
  "xor_b binary_a binary_b = xor_b_loop [0..<8] binary_a binary_b []"

subsection \<open>Validation and messages\<close>

definition quoted :: "string \<Rightarrow> string" where
  "quoted s = [CHR 0x27] @ s @ [CHR 0x27]"

definition decimal_range_error :: "int \<Rightarrow> error" where
  "decimal_range_error decimal =
     ConversionError (''Decimal value must be between 0-255: '' @ str_int decimal)"

definition invalid_hex_error :: "string \<Rightarrow> error" where
  "invalid_hex_error hex_string = ConversionError (''Invalid hex string: '' @ quoted hex_string)"

definition hex_range_error :: "string \<Rightarrow> error" where
  "hex_range_error i = ConversionError (''Hex value must convert to 0-255: '' @ quoted i)"

definition binary_error :: "string \<Rightarrow> error" where
  "binary_error binary =
     ConversionError (''Binary string must be 8 bits with only 0s and 1s: '' @ quoted binary)"

fun validate_decimal_range :: "int list \<Rightarrow> error + unit" where
  "validate_decimal_range [] = Inr ()"
| "validate_decimal_range (decimal # r) =
     (if decimal < 0 \<or> decimal > 255 then Inl (decimal_range_error decimal)
      else validate_decimal_range r)"

text \<open>
  The loop that opens \<open>binary_to_hex\<close>, \<open>binary_to_text\<close> and \<open>binary_to_decimal\<close>: the
  same three lines in each of them.
\<close>

fun validate_binary_list :: "string list \<Rightarrow> error + unit" where
  "validate_binary_list [] = Inr ()"
| "validate_binary_list (binary # r) =
     (if length binary \<noteq> 8 \<or> \<not> list_all (\<lambda>bit. bit = CHR ''0'' \<or> bit = CHR ''1'') binary
      then Inl (binary_error binary)
      else validate_binary_list r)"

text \<open>\<open>except ValueError: raise ConversionError(...)\<close> around a computation.\<close>

definition except_ValueError :: "error \<Rightarrow> error + 'a \<Rightarrow> error + 'a" where
  "except_ValueError handler r =
     (case r of Inl e \<Rightarrow> (if e = ValueError then Inl handler else Inl e) | Inr v \<Rightarrow> Inr v)"

subsection \<open>Conversions of sequences\<close>

fun decimal_to_text_loop :: "int list \<Rightarrow> string \<Rightarrow> error + string" where
  "decimal_to_text_loop [] text = Inr text"
| "decimal_to_text_loop (i # r) text =
     (case d_to_t i of Inl e \<Rightarrow> Inl e | Inr c \<Rightarrow> decimal_to_text_loop r (text @ c))"

definition decimal_to_text :: "int list \<Rightarrow> error + string" where
  "decimal_to_text decimal_list =
     (case validate_decimal_range decimal_list of
        Inl e \<Rightarrow> Inl e
      | Inr _ \<Rightarrow> decimal_to_text_loop decimal_list [])"

fun decimal_to_binary_loop :: "int list \<Rightarrow> string list \<Rightarrow> string list" where
  "decimal_to_binary_loop [] binary_list = binary_list"
| "decimal_to_binary_loop (i # r) binary_list = decimal_to_binary_loop r (binary_list @ [d_to_b i])"

definition decimal_to_binary :: "int list \<Rightarrow> error + string list" where
  "decimal_to_binary decimal_list =
     (case validate_decimal_range decimal_list of
        Inl e \<Rightarrow> Inl e
      | Inr _ \<Rightarrow> Inr (decimal_to_binary_loop decimal_list []))"

fun decimal_to_hex_loop :: "int list \<Rightarrow> string \<Rightarrow> string" where
  "decimal_to_hex_loop [] hex_string = hex_string"
| "decimal_to_hex_loop (i # r) hex_string = decimal_to_hex_loop r (hex_string @ d_to_h i)"

text \<open>
  In single-value mode the argument is one number (\<open>hex\<close> of a list raises TypeError);
  otherwise it is a list (a loop over a number raises TypeError).
\<close>

definition decimal_to_hex :: "decimals \<Rightarrow> bool \<Rightarrow> error + string" where
  "decimal_to_hex decimal_list as_single_value =
     (if as_single_value
      then (case decimal_list of Single n \<Rightarrow> Inr (d_to_h n) | Many _ \<Rightarrow> Inl TypeError)
      else (case decimal_list of
              Single _ \<Rightarrow> Inl TypeError
            | Many ds \<Rightarrow>
                (case validate_decimal_range ds of
                   Inl e \<Rightarrow> Inl e
                 | Inr _ \<Rightarrow> Inr (decimal_to_hex_loop ds []))))"

fun text_to_decimal_loop :: "string \<Rightarrow> int list \<Rightarrow> error + int list" where
  "text_to_decimal_loop [] decimal_list = Inr decimal_list"
| "text_to_decimal_loop (i # r) decimal_list =
     (case t_to_d [i] of Inl e \<Rightarrow> Inl e | Inr d \<Rightarrow> text_to_decimal_loop r (decimal_list @ [d]))"

definition text_to_decimal :: "string \<Rightarrow> error + int list" where
  "text_to_decimal text = text_to_decimal_loop (strip_nl text) []"

fun text_to_hex_loop :: "string \<Rightarrow> string \<Rightarrow> error + string" where
  "text_to_hex_loop [] hex_string = Inr hex_string"
| "text_to_hex_loop (i # r) hex_string =
     (case t_to_d [i] of
        Inl e \<Rightarrow> Inl e
      | Inr temp_decimal \<Rightarrow> text_to_hex_loop r (hex_string @ d_to_h temp_decimal))"

definition text_to_hex :: "string \<Rightarrow> error + string" where
  "text_to_hex text = text_to_hex_loop text []"

fun text_to_binary_loop :: "string \<Rightarrow> string list \<Rightarrow> error + string list" where
  "text_to_binary_loop [] binary_list = Inr binary_list"
| "text_to_binary_loop (i # r) binary_list =
     (case t_to_d [i] of
        Inl e \<Rightarrow> Inl e
      | Inr decimal \<Rightarrow> text_to_binary_loop r (binary_list @ [d_to_b decimal]))"

definition text_to_binary :: "string \<Rightarrow> error + string list" where
  "text_to_binary text = text_to_binary_loop text []"

definition strip_0x :: "string \<Rightarrow> string" where
  "strip_0x hex_string = (if startswith hex_string ''0x'' then drop 2 hex_string else hex_string)"

fun hex_to_decimal_loop :: "string list \<Rightarrow> int list \<Rightarrow> error + int list" where
  "hex_to_decimal_loop [] decimal_list = Inr decimal_list"
| "hex_to_decimal_loop (i # r) decimal_list =
     (case int16 i of
        None \<Rightarrow> Inl ValueError
      | Some d \<Rightarrow> hex_to_decimal_loop r (decimal_list @ [d]))"

text \<open>
  The message of the handler shows \<open>hex_string\<close> as it is when the handler runs: after
  the prefix was removed.
\<close>

definition hex_to_decimal :: "string \<Rightarrow> bool \<Rightarrow> error + decimals" where
  "hex_to_decimal hex_string as_single_value =
     (let hex_string = strip_0x hex_string
      in except_ValueError (invalid_hex_error hex_string)
           (if as_single_value
            then (case int16 hex_string of None \<Rightarrow> Inl ValueError | Some v \<Rightarrow> Inr (Single v))
            else (case hex_to_decimal_loop (hex_list hex_string) [] of
                    Inl e \<Rightarrow> Inl e
                  | Inr decimal_list \<Rightarrow> Inr (Many decimal_list))))"

fun hex_to_text_loop :: "string list \<Rightarrow> string \<Rightarrow> error + string" where
  "hex_to_text_loop [] text = Inr text"
| "hex_to_text_loop (i # r) text =
     (case int16 i of
        None \<Rightarrow> Inl ValueError
      | Some temp_decimal \<Rightarrow>
          if temp_decimal < 0 \<or> temp_decimal > 255 then Inl (hex_range_error i)
          else (case chr temp_decimal of
                  Inl e \<Rightarrow> Inl e
                | Inr c \<Rightarrow> hex_to_text_loop r (text @ c)))"

definition hex_to_text :: "string \<Rightarrow> error + string" where
  "hex_to_text hex_string =
     (if hex_string = [] then Inr []
      else let hex_string = strip_0x hex_string
           in except_ValueError (invalid_hex_error hex_string)
                (hex_to_text_loop (hex_list hex_string) []))"

fun hex_to_binary_loop :: "string list \<Rightarrow> string list \<Rightarrow> error + string list" where
  "hex_to_binary_loop [] binary_list = Inr binary_list"
| "hex_to_binary_loop (hex_pair # r) binary_list =
     (case int16 hex_pair of
        None \<Rightarrow> Inl ValueError
      | Some decimal \<Rightarrow>
          if decimal < 0 \<or> decimal > 255 then Inl (hex_range_error hex_pair)
          else hex_to_binary_loop r (binary_list @ [d_to_b decimal]))"

definition hex_to_binary :: "string \<Rightarrow> error + string list" where
  "hex_to_binary hex_string =
     (let hex_string = strip_0x hex_string
      in except_ValueError (invalid_hex_error hex_string)
           (hex_to_binary_loop (hex_list hex_string) []))"

fun binary_to_hex_loop :: "string list \<Rightarrow> string \<Rightarrow> string" where
  "binary_to_hex_loop [] hex_string = hex_string"
| "binary_to_hex_loop (binary # r) hex_string =
     binary_to_hex_loop r (hex_string @ d_to_h (b_to_d binary))"

definition binary_to_hex :: "string list \<Rightarrow> error + string" where
  "binary_to_hex binary_list =
     (case validate_binary_list binary_list of
        Inl e \<Rightarrow> Inl e
      | Inr _ \<Rightarrow> Inr (binary_to_hex_loop binary_list []))"

fun binary_to_text_loop :: "string list \<Rightarrow> string \<Rightarrow> error + string" where
  "binary_to_text_loop [] text = Inr text"
| "binary_to_text_loop (i # r) text =
     (case d_to_t (b_to_d i) of
        Inl e \<Rightarrow> Inl e
      | Inr c \<Rightarrow> binary_to_text_loop r (text @ c))"

definition binary_to_text :: "string list \<Rightarrow> error + string" where
  "binary_to_text binary_list =
     (case validate_binary_list binary_list of
        Inl e \<Rightarrow> Inl e
      | Inr _ \<Rightarrow> binary_to_text_loop binary_list [])"

fun binary_to_decimal_loop :: "string list \<Rightarrow> int list \<Rightarrow> int list" where
  "binary_to_decimal_loop [] decimal_list = decimal_list"
| "binary_to_decimal_loop (i # r) decimal_list =
     binary_to_decimal_loop r (decimal_list @ [b_to_d i])"

definition binary_to_decimal :: "string list \<Rightarrow> error + int list" where
  "binary_to_decimal binary_list =
     (case validate_binary_list binary_list of
        Inl e \<Rightarrow> Inl e
      | Inr _ \<Rightarrow> Inr (binary_to_decimal_loop binary_list []))"

subsection \<open>Exclusive or\<close>

text \<open>
  Both loops run over \<open>range(min(len(a), len(b)))\<close> and read \<open>a[i]\<close> and \<open>b[i]\<close>, which
  are in range for every such \<open>i\<close>.
\<close>

fun xor_text_loop ::
  "nat list \<Rightarrow> string list \<Rightarrow> string list \<Rightarrow> string list \<Rightarrow> error + string list" where
  "xor_text_loop [] binary_list_a binary_list_b binary_list_c = Inr binary_list_c"
| "xor_text_loop (i # r) binary_list_a binary_list_b binary_list_c =
     (case xor_b (binary_list_a ! i) (binary_list_b ! i) of
        Inl e \<Rightarrow> Inl e
      | Inr x \<Rightarrow> xor_text_loop r binary_list_a binary_list_b (binary_list_c @ [x]))"

definition xor_text :: "string \<Rightarrow> string \<Rightarrow> error + string" where
  "xor_text text_a text_b =
     (case text_to_binary text_a of
        Inl e \<Rightarrow> Inl e
      | Inr binary_list_a \<Rightarrow>
          (case text_to_binary text_b of
             Inl e \<Rightarrow> Inl e
           | Inr binary_list_b \<Rightarrow>
               (case xor_text_loop [0..<min (length binary_list_a) (length binary_list_b)]
                       binary_list_a binary_list_b [] of
                  Inl e \<Rightarrow> Inl e
                | Inr binary_list_c \<Rightarrow> binary_to_text binary_list_c)))"

fun xor_decimals_loop ::
  "nat list \<Rightarrow> int list \<Rightarrow> int list \<Rightarrow> int list \<Rightarrow> error + int list" where
  "xor_decimals_loop [] decimal_list_a decimal_list_b xored_decs = Inr xored_decs"
| "xor_decimals_loop (i # r) decimal_list_a decimal_list_b xored_decs =
     (let binary_a = d_to_b (decimal_list_a ! i);
          binary_b = d_to_b (decimal_list_b ! i)
      in case xor_b binary_a binary_b of
           Inl e \<Rightarrow> Inl e
         | Inr xored_binary \<Rightarrow>
             xor_decimals_loop r decimal_list_a decimal_list_b (xored_decs @ [b_to_d xored_binary]))"

definition xor_decimals :: "int list \<Rightarrow> int list \<Rightarrow> error + int list" where
  "xor_decimals decimal_list_a decimal_list_b =
     (case validate_decimal_range decimal_list_a of
        Inl e \<Rightarrow> Inl e
      | Inr _ \<Rightarrow>
          (case validate_decimal_range decimal_list_b of
             Inl e \<Rightarrow> Inl e
           | Inr _ \<Rightarrow>
               xor_decimals_loop [0..<min (length decimal_list_a) (length decimal_list_b)]
                 decimal_list_a decimal_list_b []))"

section \<open>Properties\<close>

subsection \<open>Text and decimal values\<close>

lemma text_to_decimal_loop_eq:
  "text_to_decimal_loop s acc = Inr (acc @ map of_char s)"
  by (induction s arbitrary: acc) (simp_all add: t_to_d_def ord_def)

lemma dropWhile_nl_replicate:
  "dropWhile (\<lambda>c. c = CHR 0x0A) (replicate n (CHR 0x0A) @ t) = dropWhile (\<lambda>c. c = CHR 0x0A) t"
  by (rule dropWhile_append2) simp

lemma strip_nl_span:
  assumes "s = [] \<or> (hd s \<noteq> CHR 0x0A \<and> last s \<noteq> CHR 0x0A)"
  shows "strip_nl (replicate n (CHR 0x0A) @ s @ replicate m (CHR 0x0A)) = s"
proof (cases "s = []")
  case True
  have e: "dropWhile (\<lambda>c. c = CHR 0x0A) (replicate m (CHR 0x0A)) = []"
    using dropWhile_nl_replicate [of m "[]"] by (simp only: append_Nil2 dropWhile.simps)
  have "strip_nl (replicate n (CHR 0x0A) @ [] @ replicate m (CHR 0x0A)) = []"
    by (simp only: strip_nl_def append_Nil dropWhile_nl_replicate e rev.simps dropWhile.simps)
  with True show ?thesis by (simp only:)
next
  case False
  with assms have h: "hd s \<noteq> CHR 0x0A" and l: "last s \<noteq> CHR 0x0A" by auto
  from False h have d1:
    "dropWhile (\<lambda>c. c = CHR 0x0A) (s @ replicate m (CHR 0x0A)) = s @ replicate m (CHR 0x0A)"
    by (cases s) simp_all
  from False l have d2: "dropWhile (\<lambda>c. c = CHR 0x0A) (rev s) = rev s"
    by (cases s rule: rev_cases) simp_all
  have "strip_nl (replicate n (CHR 0x0A) @ s @ replicate m (CHR 0x0A))
      = rev (dropWhile (\<lambda>c. c = CHR 0x0A) (rev (s @ replicate m (CHR 0x0A))))"
    by (simp only: strip_nl_def dropWhile_nl_replicate d1)
  also have "rev (s @ replicate m (CHR 0x0A)) = replicate m (CHR 0x0A) @ rev s"
    by simp
  also have "rev (dropWhile (\<lambda>c. c = CHR 0x0A) (replicate m (CHR 0x0A) @ rev s)) = s"
    by (simp only: dropWhile_nl_replicate d2 rev_rev_ident)
  finally show ?thesis .
qed

lemma char_of_10: "char_of (10 :: int) = CHR 0x0A"
  by (simp add: char_of_eq_iff)

lemma char_of_65: "char_of (65 :: int) = CHR ''A''"
  by (simp add: char_of_eq_iff)

text \<open>
  Claim C10. \<open>text_to_decimal\<close> removes every line feed at the start and at the end of
  its input before it converts: for a text \<open>s\<close> that neither starts nor ends with a line
  feed, any number of line feeds before and after \<open>s\<close> add nothing to the result, which
  is the list of the code points of \<open>s\<close>, line feeds inside \<open>s\<close> included.
\<close>

theorem text_to_decimal_strips_newlines:
  assumes "s = [] \<or> (hd s \<noteq> CHR 0x0A \<and> last s \<noteq> CHR 0x0A)"
  shows "text_to_decimal (replicate n (CHR 0x0A) @ s @ replicate m (CHR 0x0A))
         = Inr (map of_char s)"
  using strip_nl_span [OF assms] by (simp add: text_to_decimal_def text_to_decimal_loop_eq)

theorem text_to_decimal_strips_newlines_witness:
  "text_to_decimal [CHR 0x0A, CHR ''A'', CHR 0x0A] = Inr [65]
   \<and> text_to_decimal [CHR 0x0A, CHR 0x0A, CHR ''A'', CHR 0x0A, CHR ''B'', CHR 0x0A]
       = Inr [65, 10, 66]"
  using text_to_decimal_strips_newlines [of "''A''" "Suc 0" "Suc 0"]
    text_to_decimal_strips_newlines [of "[CHR ''A'', CHR 0x0A, CHR ''B'']" "Suc (Suc 0)" "Suc 0"]
  by simp

text \<open>
  Claim C2, as stated, fails at the line feed: \<open>decimal_to_text [10]\<close> is the text of one
  line feed, which \<open>text_to_decimal\<close> strips, so the round trip of 10 gives the empty
  list.
\<close>

theorem text_roundtrip_counterexample:
  "decimal_to_text [10] = Inr [CHR 0x0A] \<and> text_to_decimal [CHR 0x0A] = Inr []
   \<and> text_to_decimal [CHR 0x0A] \<noteq> Inr [10]"
  by (simp add: decimal_to_text_def d_to_t_def chr_def text_to_decimal_def strip_nl_def
      char_of_10)

text \<open>
  Claim C2, amended. For every integer \<open>d\<close> from 0 to 255 other than 10, converting
  \<open>[d]\<close> to text and the text back gives \<open>[d]\<close>.
\<close>

theorem text_roundtrip_except_newline:
  assumes "0 \<le> d" and "d \<le> 255" and "d \<noteq> 10"
  shows "decimal_to_text [d] = Inr [char_of d] \<and> text_to_decimal [char_of d] = Inr [d]"
proof -
  from assms have m: "d mod 256 = d" by simp
  have ne: "char_of d \<noteq> CHR 0x0A"
  proof
    assume "char_of d = CHR 0x0A"
    then have "(of_char (char_of d) :: int) = of_char (CHR 0x0A)" by simp
    with m assms(3) show False by simp
  qed
  from assms have a: "decimal_to_text [d] = Inr [char_of d]"
    by (simp add: decimal_to_text_def d_to_t_def chr_def)
  from ne m have b: "text_to_decimal [char_of d] = Inr [d]"
    by (simp add: text_to_decimal_def strip_nl_def t_to_d_def ord_def)
  from a b show ?thesis by simp
qed

theorem text_roundtrip_except_newline_witness:
  "decimal_to_text [65] = Inr ''A'' \<and> text_to_decimal ''A'' = Inr [65]"
proof -
  have "decimal_to_text [65] = Inr [char_of (65 :: int)]
      \<and> text_to_decimal [char_of (65 :: int)] = Inr [65]"
    by (rule text_roundtrip_except_newline) simp_all
  then show ?thesis
    by (simp only: char_of_65)
qed

subsection \<open>Validation\<close>

lemma validate_decimal_range_bad:
  "\<exists>x\<in>set ds. x < 0 \<or> 255 < x \<Longrightarrow>
   \<exists>d\<in>set ds. (d < 0 \<or> 255 < d) \<and> validate_decimal_range ds = Inl (decimal_range_error d)"
  by (induction ds) auto

lemma validate_decimal_range_cases:
  "validate_decimal_range ds = Inr ()
   \<or> (\<exists>d\<in>set ds. (d < 0 \<or> 255 < d) \<and> validate_decimal_range ds = Inl (decimal_range_error d))"
  by (induction ds) auto

lemma validate_decimal_range_ok:
  "\<forall>x\<in>set ds. 0 \<le> x \<and> x \<le> 255 \<Longrightarrow> validate_decimal_range ds = Inr ()"
  by (induction ds) auto

text \<open>
  Claim C4. When a decimal list holds a value below 0 or above 255, \<open>decimal_to_text\<close>,
  \<open>decimal_to_binary\<close>, \<open>decimal_to_hex\<close> in default mode and \<open>xor_decimals\<close> (with the
  list as either argument) raise the conversion error that reports an out-of-range value;
  none of them returns a result, so no value is clamped or wrapped.
\<close>

theorem decimal_range_rejected:
  assumes "\<exists>x\<in>set ds. x < 0 \<or> 255 < x"
  shows "\<exists>d\<in>set ds. (d < 0 \<or> 255 < d)
           \<and> decimal_to_text ds = Inl (decimal_range_error d)
           \<and> decimal_to_binary ds = Inl (decimal_range_error d)
           \<and> decimal_to_hex (Many ds) False = Inl (decimal_range_error d)
           \<and> xor_decimals ds other = Inl (decimal_range_error d)
           \<and> (\<exists>e. (e < 0 \<or> 255 < e) \<and> xor_decimals other ds = Inl (decimal_range_error e))"
proof -
  from validate_decimal_range_bad [OF assms] obtain d where
    d: "d \<in> set ds" "d < 0 \<or> 255 < d" "validate_decimal_range ds = Inl (decimal_range_error d)"
    by blast
  have x: "\<exists>e. (e < 0 \<or> 255 < e) \<and> xor_decimals other ds = Inl (decimal_range_error e)"
    using validate_decimal_range_cases [of other] d(2,3)
    by (auto simp: xor_decimals_def)
  from d x show ?thesis
    by (auto simp: decimal_to_text_def decimal_to_binary_def decimal_to_hex_def xor_decimals_def)
qed

theorem decimal_range_rejected_witness:
  "decimal_to_text [1, 256] = Inl (decimal_range_error 256)
   \<and> decimal_to_binary [1, 256] = Inl (decimal_range_error 256)
   \<and> decimal_to_hex (Many [1, 256]) False = Inl (decimal_range_error 256)
   \<and> xor_decimals [1, 256] [7] = Inl (decimal_range_error 256)
   \<and> decimal_to_text [- 1] = Inl (decimal_range_error (- 1))"
proof -
  have h: "\<exists>x\<in>set [1, 256 :: int]. x < 0 \<or> 255 < x" by simp
  have g: "\<exists>x\<in>set [- 1 :: int]. x < 0 \<or> 255 < x" by simp
  from decimal_range_rejected [OF h, of "[7]"] decimal_range_rejected [OF g, of "[]"]
  show ?thesis by auto
qed

lemma validate_binary_list_bad:
  "\<exists>b\<in>set bl. length b \<noteq> 8 \<or> (\<exists>c\<in>set b. c \<noteq> CHR ''0'' \<and> c \<noteq> CHR ''1'') \<Longrightarrow>
   \<exists>b\<in>set bl. (length b \<noteq> 8 \<or> (\<exists>c\<in>set b. c \<noteq> CHR ''0'' \<and> c \<noteq> CHR ''1''))
     \<and> validate_binary_list bl = Inl (binary_error b)"
  by (induction bl) (auto simp: list_all_iff)

text \<open>
  Claim C5. When a list of binary strings holds an element that is not 8 characters, each
  \<open>0\<close> or \<open>1\<close>, \<open>binary_to_hex\<close>, \<open>binary_to_text\<close> and \<open>binary_to_decimal\<close> raise the
  conversion error that reports a malformed element, wherever the element stands in the
  list: the whole list is checked before any element is converted, and nothing is
  returned.
\<close>

theorem malformed_binary_rejected:
  assumes "\<exists>b\<in>set bl. length b \<noteq> 8 \<or> (\<exists>c\<in>set b. c \<noteq> CHR ''0'' \<and> c \<noteq> CHR ''1'')"
  shows "\<exists>b\<in>set bl. (length b \<noteq> 8 \<or> (\<exists>c\<in>set b. c \<noteq> CHR ''0'' \<and> c \<noteq> CHR ''1''))
           \<and> binary_to_hex bl = Inl (binary_error b)
           \<and> binary_to_text bl = Inl (binary_error b)
           \<and> binary_to_decimal bl = Inl (binary_error b)"
proof -
  from validate_binary_list_bad [OF assms] obtain b where
    b: "b \<in> set bl" "length b \<noteq> 8 \<or> (\<exists>c\<in>set b. c \<noteq> CHR ''0'' \<and> c \<noteq> CHR ''1'')"
       "validate_binary_list bl = Inl (binary_error b)"
    by blast
  then show ?thesis
    by (auto simp: binary_to_hex_def binary_to_text_def binary_to_decimal_def)
qed

theorem malformed_binary_rejected_witness:
  "binary_to_decimal [''01000001'', ''0100000''] = Inl (binary_error ''0100000'')
   \<and> binary_to_hex [''01000001'', ''010000010''] = Inl (binary_error ''010000010'')
   \<and> binary_to_text [''01000001'', ''0100000a''] = Inl (binary_error ''0100000a'')"
proof -
  have h7: "\<exists>b\<in>set [''01000001'', ''0100000''].
      length b \<noteq> 8 \<or> (\<exists>c\<in>set b. c \<noteq> CHR ''0'' \<and> c \<noteq> CHR ''1'')" by simp
  have h9: "\<exists>b\<in>set [''01000001'', ''010000010''].
      length b \<noteq> 8 \<or> (\<exists>c\<in>set b. c \<noteq> CHR ''0'' \<and> c \<noteq> CHR ''1'')" by simp
  have ha: "\<exists>b\<in>set [''01000001'', ''0100000a''].
      length b \<noteq> 8 \<or> (\<exists>c\<in>set b. c \<noteq> CHR ''0'' \<and> c \<noteq> CHR ''1'')" by simp
  from malformed_binary_rejected [OF h7] malformed_binary_rejected [OF h9]
    malformed_binary_rejected [OF ha]
  show ?thesis by auto
qed

subsection \<open>Parsing strings of hexadecimal digits\<close>

text \<open>
  The value of a string of digits in base 16, most significant digit first: what
  \<open>int(s, 16)\<close> is specified to return for a string of hexadecimal digits.
\<close>

definition hex_value :: "string \<Rightarrow> int" where
  "hex_value s = foldl (\<lambda>a c. 16 * a + int (digit_value c)) 0 s"

lemma hex_value_snoc: "hex_value (s @ [c]) = 16 * hex_value s + int (digit_value c)"
  by (simp add: hex_value_def)

lemma hex_digit_not_space: "digit_value c < 16 \<Longrightarrow> \<not> is_space c"
  by (auto simp: is_space_def digit_value_def Let_def)

lemma hex_digit_not_special:
  "digit_value c < 16 \<Longrightarrow>
   c \<noteq> CHR ''+'' \<and> c \<noteq> CHR ''-'' \<and> c \<noteq> CHR ''_'' \<and> c \<noteq> CHR ''x'' \<and> c \<noteq> CHR ''X''"
  by (auto simp: digit_value_def Let_def)

lemma scan_hex_digits:
  "\<forall>c\<in>set s. digit_value c < 16 \<Longrightarrow>
   scan_hex s False acc = Some (foldl (\<lambda>a c. 16 * a + int (digit_value c)) acc s, [])"
proof (induction s arbitrary: acc)
  case Nil
  then show ?case by simp
next
  case (Cons c s)
  then have "digit_value c < 16" and "c \<noteq> CHR ''_''"
    using hex_digit_not_special [of c] by simp_all
  with Cons show ?case by simp
qed

lemma read_sign_digit: "digit_value c < 16 \<Longrightarrow> read_sign (c # r) = (1, c # r)"
  using hex_digit_not_special [of c] by (simp add: read_sign_def)

lemma read_prefix_digits: "\<forall>c\<in>set s. digit_value c < 16 \<Longrightarrow> read_prefix s = s"
proof (cases s)
  case Nil
  then show ?thesis by (simp add: read_prefix_def)
next
  case (Cons c r)
  assume a: "\<forall>c\<in>set s. digit_value c < 16"
  show ?thesis
  proof (cases r)
    case Nil
    with Cons show ?thesis by (simp add: read_prefix_def)
  next
    case (Cons x r')
    with a \<open>s = c # r\<close> have "x \<noteq> CHR ''x''" and "x \<noteq> CHR ''X''"
      using hex_digit_not_special [of x] by simp_all
    with Cons \<open>s = c # r\<close> show ?thesis by (simp add: read_prefix_def)
  qed
qed

lemma int16_hex_digits:
  assumes "s \<noteq> []" and "\<forall>c\<in>set s. digit_value c < 16"
  shows "int16 s = Some (hex_value s)"
proof -
  from assms(1) obtain c r where s: "s = c # r" by (cases s) auto
  with assms(2) have c: "digit_value c < 16" by simp
  then have d: "dropWhile is_space s = s"
    using hex_digit_not_space [of c] s by simp
  have g: "read_sign s = (1, s)"
    using read_sign_digit [OF c] s by simp
  have p: "read_prefix s = s"
    by (rule read_prefix_digits [OF assms(2)])
  have sc: "scan_hex s False 0 = Some (hex_value s, [])"
    using scan_hex_digits [OF assms(2)] by (simp add: hex_value_def)
  have "int16 s = (case s of [] \<Rightarrow> None | c # _ \<Rightarrow>
          if \<not> digit_value c < 16 then None
          else (case scan_hex s False 0 of None \<Rightarrow> None
                | Some (v, rest) \<Rightarrow> if dropWhile is_space rest = [] then Some (1 * v) else None))"
    by (simp only: int16_def d g p Let_def split_conv)
  also have "\<dots> = Some (hex_value s)"
  proof -
    from s c have hc: "digit_value (hd s) < 16" by simp
    show ?thesis by (simp add: list.case_eq_if assms(1) hc sc)
  qed
  finally show ?thesis .
qed

lemma strip_0x_digits: "\<forall>c\<in>set s. digit_value c < 16 \<Longrightarrow> strip_0x s = s"
proof -
  assume a: "\<forall>c\<in>set s. digit_value c < 16"
  have "\<not> startswith s ''0x''"
  proof
    assume "startswith s ''0x''"
    then have "take (Suc (Suc 0)) s = ''0x''" by (simp add: startswith_def)
    then obtain r where "s = CHR ''0'' # CHR ''x'' # r"
      by (cases s; cases "tl s") auto
    with a have "digit_value (CHR ''x'') < 16" by simp
    then show False by (simp add: digit_value_def)
  qed
  then show ?thesis by (simp add: strip_0x_def)
qed

lemma hex_list_chunks:
  "i \<in> set (hex_list s) \<Longrightarrow> i \<noteq> [] \<and> length i \<le> 2 \<and> set i \<subseteq> set s"
  by (induction s arbitrary: i rule: hex_list.induct) auto

lemma concat_hex_list: "concat (hex_list s) = s"
  by (induction s rule: hex_list.induct) auto

lemma length_hex_list: "length (hex_list s) = (length s + 1) div 2"
  by (induction s rule: hex_list.induct) auto

lemma hex_list_Nil: "hex_list s = [] \<longleftrightarrow> s = []"
  by (cases s rule: hex_list.cases) auto

lemma last_hex_list_odd: "odd (length s) \<Longrightarrow> last (hex_list s) = [last s]"
  by (induction s rule: hex_list.induct) (auto simp: hex_list_Nil)

lemma hex_to_decimal_loop_digits:
  "\<forall>i\<in>set l. i \<noteq> [] \<and> (\<forall>c\<in>set i. digit_value c < 16) \<Longrightarrow>
   hex_to_decimal_loop l acc = Inr (acc @ map hex_value l)"
  by (induction l arbitrary: acc) (simp_all add: int16_hex_digits)

lemma hex_to_decimal_digits:
  assumes "\<forall>c\<in>set s. digit_value c < 16"
  shows "hex_to_decimal s False = Inr (Many (map hex_value (hex_list s)))"
proof -
  have "\<forall>i\<in>set (hex_list s). i \<noteq> [] \<and> (\<forall>c\<in>set i. digit_value c < 16)"
    using assms hex_list_chunks by blast
  then have "hex_to_decimal_loop (hex_list s) [] = Inr (map hex_value (hex_list s))"
    using hex_to_decimal_loop_digits [of "hex_list s" "[]"] by simp
  then show ?thesis
    by (simp add: hex_to_decimal_def strip_0x_digits [OF assms] except_ValueError_def)
qed

text \<open>
  Claim C9. In single-value mode \<open>hex_to_decimal\<close> reads a whole non-empty string of
  hexadecimal digits as one integer, its value in base 16, whatever its length: there is
  no bound of 255. In particular \<open>ff\<close> gives 255 and \<open>1ff\<close> gives 511.
\<close>

theorem hex_to_decimal_single_value:
  assumes "s \<noteq> []" and "\<forall>c\<in>set s. digit_value c < 16"
  shows "hex_to_decimal s True = Inr (Single (hex_value s))"
  by (simp add: hex_to_decimal_def strip_0x_digits [OF assms(2)] int16_hex_digits [OF assms]
      except_ValueError_def)

theorem hex_to_decimal_single_value_witness:
  "hex_to_decimal ''ff'' True = Inr (Single 255)
   \<and> hex_to_decimal ''1ff'' True = Inr (Single 511)"
  using hex_to_decimal_single_value [of "''ff''"] hex_to_decimal_single_value [of "''1ff''"]
  by (simp add: hex_value_def digit_value_def)

text \<open>
  Claim C3, as stated, fails: the last slice of a string of odd length is the unpaired
  digit, and it is parsed like every other slice. For \<open>abc\<close> the result has two elements,
  not one, and the second is the value of \<open>c\<close>.
\<close>

theorem hex_odd_digit_counterexample:
  "hex_to_decimal ''abc'' False = Inr (Many [171, 12])
   \<and> length [171, 12 :: int] \<noteq> length ''abc'' div 2"
  using hex_to_decimal_digits [of "''abc''"]
  by (simp add: hex_value_def digit_value_def)

text \<open>
  Claim C3, amended. For a string of hexadecimal digits of odd length \<open>n\<close>,
  \<open>hex_to_decimal\<close> in default mode keeps the trailing digit: the result has
  \<open>(n + 1) div 2\<close> elements, one for each pair and a last one, which is the value of the
  unpaired digit.
\<close>

theorem hex_odd_digit_kept:
  assumes "\<forall>c\<in>set s. digit_value c < 16" and "odd (length s)"
  shows "\<exists>ds. hex_to_decimal s False = Inr (Many ds)
           \<and> length ds = (length s + 1) div 2
           \<and> last ds = int (digit_value (last s))"
proof -
  from assms(2) have ne: "hex_list s \<noteq> []"
    by (auto simp: hex_list_Nil)
  have "last (map hex_value (hex_list s)) = hex_value (last (hex_list s))"
    using ne by (simp add: last_map)
  also have "\<dots> = int (digit_value (last s))"
    by (simp add: last_hex_list_odd [OF assms(2)] hex_value_def)
  finally have l: "last (map hex_value (hex_list s)) = int (digit_value (last s))" .
  show ?thesis
    using hex_to_decimal_digits [OF assms(1)] l by (simp add: length_hex_list)
qed

theorem hex_odd_digit_kept_witness:
  "\<exists>ds. hex_to_decimal ''abc'' False = Inr (Many ds) \<and> length ds = Suc (Suc 0) \<and> last ds = 12"
  using hex_odd_digit_kept [of "''abc''"] by (simp add: digit_value_def)

subsection \<open>Hexadecimal output\<close>

lemma of_char_hex_digit_char:
  "n < 16 \<Longrightarrow> (of_char (hex_digit_char n) :: nat) = (if n < 10 then 48 + n else 87 + n)"
  by (simp add: hex_digit_char_def)

lemma digit_value_hex_digit_char: "n < 16 \<Longrightarrow> digit_value (hex_digit_char n) = n"
  by (simp add: digit_value_def Let_def of_char_hex_digit_char)

lemma hex_digit_char_not_x: "n < 16 \<Longrightarrow> hex_digit_char n \<noteq> CHR ''x''"
proof
  assume n: "n < 16" and "hex_digit_char n = CHR ''x''"
  then have "digit_value (hex_digit_char n) = digit_value (CHR ''x'')" by simp
  with n show False by (simp add: digit_value_hex_digit_char) (simp add: digit_value_def)
qed

lemma hex_digits_chars: "c \<in> set (hex_digits n) \<Longrightarrow> digit_value c < 16 \<and> c \<noteq> CHR ''x''"
proof (induction n arbitrary: c rule: hex_digits.induct)
  case (1 n)
  show ?case
  proof (cases "n < 16")
    case True
    with "1.prems" have "c = hex_digit_char n"
      by (simp add: hex_digits.simps [of n])
    with True show ?thesis
      by (simp add: digit_value_hex_digit_char hex_digit_char_not_x)
  next
    case False
    with "1.prems" have "c \<in> set (hex_digits (n div 16)) \<or> c = hex_digit_char (n mod 16)"
      by (auto simp add: hex_digits.simps [of n])
    then show ?thesis
    proof
      assume "c \<in> set (hex_digits (n div 16))"
      with False "1.IH" show ?thesis by simp
    next
      assume "c = hex_digit_char (n mod 16)"
      then show ?thesis
        by (simp add: digit_value_hex_digit_char hex_digit_char_not_x)
    qed
  qed
qed

lemma hex_digits_not_Nil: "hex_digits n \<noteq> []"
  by (simp add: hex_digits.simps [of n])

text \<open>
  \<open>d_to_h\<close> of a number that is not negative is a string of hexadecimal digits; of a
  negative number it is an \<open>x\<close> and then such a string, since the slice \<open>[2:]\<close> cuts
  \<open>-0\<close> off.
\<close>

lemma d_to_h_nonneg:
  "0 \<le> n \<Longrightarrow> c \<in> set (d_to_h n) \<Longrightarrow> digit_value c < 16 \<and> c \<noteq> CHR ''x''"
proof -
  assume n: "0 \<le> n" and c: "c \<in> set (d_to_h n)"
  from n have "d_to_h n = (if length (hex_digits (nat n)) = 1 then CHR ''0'' # hex_digits (nat n)
                           else hex_digits (nat n))"
    by (simp add: d_to_h_def py_hex_def Let_def)
  with c have "c = CHR ''0'' \<or> c \<in> set (hex_digits (nat n))"
    by (auto split: if_splits)
  then show ?thesis
    using hex_digits_chars [of c "nat n"] by (auto simp: digit_value_def)
qed

lemma d_to_h_neg: "n < 0 \<Longrightarrow> d_to_h n = CHR ''x'' # hex_digits (nat (- n))"
proof -
  assume n: "n < 0"
  have "length (hex_digits (nat (- n))) \<noteq> 0"
    using hex_digits_not_Nil [of "nat (- n)"] by simp
  with n show ?thesis
    by (simp add: d_to_h_def py_hex_def Let_def)
qed

lemma d_to_h_byte:
  assumes "0 \<le> d" and "d \<le> 255"
  shows "d_to_h d = [hex_digit_char (nat d div 16), hex_digit_char (nat d mod 16)]"
proof (cases "nat d < 16")
  case True
  then have "hex_digits (nat d) = [hex_digit_char (nat d)]"
    by (simp add: hex_digits.simps [of "nat d"])
  moreover have "hex_digit_char 0 = CHR ''0''"
    by (simp add: hex_digit_char_def char_of_eq_iff)
  ultimately show ?thesis
    using True assms by (simp add: d_to_h_def py_hex_def Let_def)
next
  case False
  from assms have "nat d div 16 < 16" by simp
  then have "hex_digits (nat d div 16) = [hex_digit_char (nat d div 16)]"
    by (simp add: hex_digits.simps [of "nat d div 16"])
  with False have "hex_digits (nat d) = [hex_digit_char (nat d div 16), hex_digit_char (nat d mod 16)]"
    by (simp add: hex_digits.simps [of "nat d"])
  with assms show ?thesis
    by (simp add: d_to_h_def py_hex_def Let_def)
qed

text \<open>Whether the two characters \<open>0x\<close> occur next to each other in a string.\<close>

fun has_0x :: "string \<Rightarrow> bool" where
  "has_0x (a # b # r) = ((a = CHR ''0'' \<and> b = CHR ''x'') \<or> has_0x (b # r))"
| "has_0x _ = False"

lemma has_0x_x: "has_0x h \<Longrightarrow> CHR ''x'' \<in> set (tl h)"
  by (induction h rule: has_0x.induct) auto

lemma no_x_no_0x: "CHR ''x'' \<notin> set h \<Longrightarrow> \<not> has_0x h"
  using has_0x_x [of h] by (cases h) auto

lemma decimal_to_hex_loop_eq:
  "decimal_to_hex_loop ds acc = acc @ concat (map d_to_h ds)"
  by (induction ds arbitrary: acc) simp_all

lemma text_to_hex_loop_eq:
  "text_to_hex_loop t acc = Inr (acc @ concat (map (\<lambda>c. d_to_h (of_char c)) t))"
  by (induction t arbitrary: acc) (simp_all add: t_to_d_def ord_def)

lemma binary_to_hex_loop_eq:
  "binary_to_hex_loop bl acc = acc @ concat (map (\<lambda>b. d_to_h (b_to_d b)) bl)"
  by (induction bl arbitrary: acc) simp_all

lemma b_to_d_loop_nonneg: "0 \<le> mult \<Longrightarrow> 0 \<le> decimal \<Longrightarrow> 0 \<le> b_to_d_loop s mult decimal"
  by (induction s arbitrary: mult decimal) simp_all

lemma b_to_d_nonneg: "0 \<le> b_to_d s"
  by (simp add: b_to_d_def b_to_d_loop_nonneg)

lemma of_char_nonneg: "0 \<le> (of_char c :: int)"
  by (metis of_nat_of_char of_nat_0_le_iff)

lemma validate_decimal_range_Inr:
  "validate_decimal_range ds = Inr u \<Longrightarrow> \<forall>x\<in>set ds. 0 \<le> x \<and> x \<le> 255"
  by (induction ds) (auto split: if_splits)

lemma no_0x_in_hex_output:
  "decimal_to_hex d m = Inr h \<Longrightarrow> \<not> has_0x h"
  "text_to_hex t = Inr h \<Longrightarrow> \<not> has_0x h"
  "binary_to_hex bl = Inr h \<Longrightarrow> \<not> has_0x h"
proof -
  show "\<not> has_0x h" if a: "decimal_to_hex d m = Inr h"
  proof (cases m)
    case True
    with a obtain n where n: "d = Single n" "h = d_to_h n"
      by (cases d) (auto simp: decimal_to_hex_def)
    show ?thesis
    proof (cases "0 \<le> n")
      case True
      then have "CHR ''x'' \<notin> set (d_to_h n)"
        using d_to_h_nonneg [of n "CHR ''x''"] by auto
      with n show ?thesis by (simp add: no_x_no_0x)
    next
      case False
      then have "h = CHR ''x'' # hex_digits (nat (- n))"
        using n d_to_h_neg [of n] by simp
      moreover have "CHR ''x'' \<notin> set (hex_digits (nat (- n)))"
        using hex_digits_chars [of "CHR ''x''" "nat (- n)"] by auto
      ultimately show ?thesis
        using has_0x_x [of h] by auto
    qed
  next
    case False
    with a obtain ds where ds: "d = Many ds" "validate_decimal_range ds = Inr ()"
        "h = concat (map d_to_h ds)"
      by (cases d) (auto simp: decimal_to_hex_def decimal_to_hex_loop_eq split: sum.splits)
    have "CHR ''x'' \<notin> set (d_to_h x)" if "x \<in> set ds" for x
      using validate_decimal_range_Inr [OF ds(2)] that d_to_h_nonneg [of x "CHR ''x''"] by auto
    with ds(3) show ?thesis by (auto intro!: no_x_no_0x)
  qed
  show "\<not> has_0x h" if a: "text_to_hex t = Inr h"
  proof -
    from a have h: "h = concat (map (\<lambda>c. d_to_h (of_char c)) t)"
      by (simp add: text_to_hex_def text_to_hex_loop_eq)
    have "CHR ''x'' \<notin> set (d_to_h (of_char c))" for c
      using d_to_h_nonneg [of "of_char c" "CHR ''x''"] of_char_nonneg [of c] by auto
    with h show ?thesis by (auto intro!: no_x_no_0x)
  qed
  show "\<not> has_0x h" if a: "binary_to_hex bl = Inr h"
  proof -
    from a have h: "h = concat (map (\<lambda>b. d_to_h (b_to_d b)) bl)"
      by (auto simp: binary_to_hex_def binary_to_hex_loop_eq split: sum.splits)
    have "CHR ''x'' \<notin> set (d_to_h (b_to_d b))" for b
      using d_to_h_nonneg [of "b_to_d b" "CHR ''x''"] b_to_d_nonneg [of b] by auto
    with h show ?thesis by (auto intro!: no_x_no_0x)
  qed
qed

lemma strip_0x_prefixed: "strip_0x (''0x'' @ s) = s"
  by (simp add: strip_0x_def startswith_def)

text \<open>
  Claim C8. For a string \<open>s\<close> of hexadecimal digits, \<open>0x\<close> before \<open>s\<close> changes nothing:
  \<open>hex_to_decimal\<close> in both modes, \<open>hex_to_text\<close> and \<open>hex_to_binary\<close> give for \<open>0x\<close> and
  \<open>s\<close> what they give for \<open>s\<close>. No hexadecimal output holds \<open>0x\<close>: not that of
  \<open>decimal_to_hex\<close> (in either mode), of \<open>text_to_hex\<close> or of \<open>binary_to_hex\<close>.
\<close>

theorem hex_prefix_ignored:
  assumes "\<forall>c\<in>set s. digit_value c < 16"
  shows "hex_to_decimal (''0x'' @ s) m = hex_to_decimal s m
       \<and> hex_to_text (''0x'' @ s) = hex_to_text s
       \<and> hex_to_binary (''0x'' @ s) = hex_to_binary s
       \<and> (\<forall>h. decimal_to_hex d m' = Inr h \<longrightarrow> \<not> has_0x h)
       \<and> (\<forall>h. text_to_hex t = Inr h \<longrightarrow> \<not> has_0x h)
       \<and> (\<forall>h. binary_to_hex bl = Inr h \<longrightarrow> \<not> has_0x h)"
proof -
  note e = strip_0x_prefixed [of s] strip_0x_digits [OF assms]
  have a: "hex_to_decimal (''0x'' @ s) m = hex_to_decimal s m"
    by (simp only: hex_to_decimal_def e Let_def)
  have b: "hex_to_text (''0x'' @ s) = hex_to_text s"
  proof (cases "s = []")
    case True
    then show ?thesis
      by (simp add: hex_to_text_def strip_0x_def startswith_def except_ValueError_def)
  next
    case False
    then show ?thesis
      by (simp add: hex_to_text_def e del: append.simps)
  qed
  have c: "hex_to_binary (''0x'' @ s) = hex_to_binary s"
    by (simp only: hex_to_binary_def e Let_def)
  from a b c no_0x_in_hex_output show ?thesis
    by blast
qed

theorem hex_prefix_ignored_witness:
  "hex_to_decimal ''0x41'' False = hex_to_decimal ''41'' False
   \<and> hex_to_decimal ''41'' False = Inr (Many [65])
   \<and> hex_to_decimal ''0x1ff'' True = hex_to_decimal ''1ff'' True
   \<and> hex_to_text ''0x41'' = hex_to_text ''41''
   \<and> hex_to_binary ''0x41'' = hex_to_binary ''41''
   \<and> decimal_to_hex (Many [72, 101, 108, 108, 111]) False = Inr ''48656c6c6f''
   \<and> \<not> has_0x ''48656c6c6f''
   \<and> text_to_hex ''Hello'' = Inr ''48656c6c6f''
   \<and> binary_to_hex [''01001000''] = Inr ''48''
   \<and> \<not> has_0x ''48''"
proof -
  have h: "\<forall>c\<in>set ''41''. digit_value c < 16" by (simp add: digit_value_def)
  have g: "\<forall>c\<in>set ''1ff''. digit_value c < 16" by (simp add: digit_value_def)
  have v: "hex_to_decimal ''41'' False = Inr (Many [65])"
    using hex_to_decimal_digits [OF h] by (simp add: hex_value_def digit_value_def)
  have o1: "decimal_to_hex (Many [72, 101, 108, 108, 111]) False = Inr ''48656c6c6f''"
    by code_simp
  have o2: "text_to_hex ''Hello'' = Inr ''48656c6c6f''"
    by code_simp
  have o3: "binary_to_hex [''01001000''] = Inr ''48''"
    by code_simp
  from hex_prefix_ignored [OF h, of False "Many [72, 101, 108, 108, 111]" False "''Hello''"
      "[''01001000'']"]
    hex_prefix_ignored [OF g, of True] v o1 o2 o3
  show ?thesis by simp
qed

end
